theory Spec2Isabelle
  imports Complex_Main "HOL-Library.AList"
begin

section \<open>JavaScript values\<close>

text \<open>
  A JavaScript number is an IEEE double. A finite double is a rational number, and
  \<open>Math.round\<close> is exact on it (its result is an integer that is again a double), so a
  finite number is modelled by its exact rational value; the three non-finite doubles are
  constructors of their own. The sign of zero is not modelled.
\<close>

datatype jsnumber = Finite rat | NaN | PosInfinity | NegInfinity

text \<open>
  An object value is a plain object (its prototype is \<open>Object.prototype\<close>), given by
  the list of its own enumerable string-keyed properties, all of them writable data
  properties, in insertion order (what \<open>Object.entries\<close> walks); a well-formed object
  holds each key once. A key \<open>__proto__\<close> in the list is an own property of that
  name, as \<open>JSON.parse\<close> or a computed key creates it. JavaScript enumerates
  integer-like keys before the others; the lists keep them where they were inserted,
  and nothing below depends on where a key stands.
\<close>

datatype jsvalue =
    JNumber jsnumber
  | JBoolean bool
  | JString string
  | JUndefined
  | JNull
  | JObject "(string \<times> jsvalue) list"

type_synonym Attributes = "(string \<times> jsvalue) list"

text \<open>The \<open>typeof\<close> operator.\<close>

fun typeof :: "jsvalue \<Rightarrow> string" where
  "typeof (JNumber _) = ''number''"
| "typeof (JBoolean _) = ''boolean''"
| "typeof (JString _) = ''string''"
| "typeof JUndefined = ''undefined''"
| "typeof JNull = ''object''"
| "typeof (JObject _) = ''object''"

text \<open>
  \<open>Math.round\<close>: the integral number closest to the argument, the one closer to
  \<open>+\<infinity>\<close> on a tie; \<open>NaN\<close> and the infinities are returned as they are.
\<close>

fun Math_round :: "jsnumber \<Rightarrow> jsnumber" where
  "Math_round (Finite x) = Finite (of_int \<lfloor>x + 1 / 2\<rfloor>)"
| "Math_round NaN = NaN"
| "Math_round PosInfinity = PosInfinity"
| "Math_round NegInfinity = NegInfinity"

text \<open>\<open>Object.keys\<close> of the own entries of an object.\<close>

definition Object_keys :: "(string \<times> 'v) list \<Rightarrow> string list" where
  "Object_keys obj = map fst obj"

text \<open>
  The target of \<open>Object.assign\<close> is an object with its own entries and its prototype:
  \<open>Object.prototype\<close> for an object created by \<open>{}\<close>, and a plain object or
  \<open>null\<close> once the setter of \<open>__proto__\<close> has replaced it.
\<close>

datatype prototype = Object_prototype | Plain_object "(string \<times> jsvalue) list" | Null_prototype

type_synonym js_object = "(string \<times> jsvalue) list \<times> prototype"

definition empty_object :: js_object where
  "empty_object = ([], Object_prototype)"

definition Object_entries :: "js_object \<Rightarrow> (string \<times> jsvalue) list" where
  "Object_entries obj = fst obj"

text \<open>
  Whether an assignment to \<open>__proto__\<close> on an object without an own property of that
  name finds the accessor of \<open>Object.prototype\<close> first on the prototype chain: a plain
  prototype with an own data property \<open>__proto__\<close> hides it, and a \<open>null\<close>
  prototype ends the chain before it.
\<close>

fun reaches_proto_setter :: "prototype \<Rightarrow> bool" where
  "reaches_proto_setter Object_prototype = True"
| "reaches_proto_setter (Plain_object es) = (map_of es ''__proto__'' = None)"
| "reaches_proto_setter Null_prototype = False"

text \<open>
  The setter of \<open>__proto__\<close>: an object or \<open>null\<close> becomes the prototype, any other
  value is ignored.
\<close>

fun proto_setter :: "jsvalue \<Rightarrow> prototype \<Rightarrow> prototype" where
  "proto_setter (JObject es) p = Plain_object es"
| "proto_setter JNull p = Null_prototype"
| "proto_setter v p = p"

text \<open>
  The assignment \<open>target[key] = v\<close> that \<open>Object.assign\<close> performs: it replaces the
  value of an own key, and adds any other key at the end, except that \<open>__proto__\<close>
  goes to the setter when the chain reaches it, which adds no own key.
\<close>

definition Set_property :: "string \<Rightarrow> jsvalue \<Rightarrow> js_object \<Rightarrow> js_object" where
  "Set_property key v obj =
     (case obj of (own, proto) \<Rightarrow>
        if map_of own key = None \<and> key = ''__proto__'' \<and> reaches_proto_setter proto
        then (own, proto_setter v proto)
        else (AList.update key v own, proto))"

text \<open>
  \<open>Object.assign\<close>: every own property of every source, in order, is assigned to the
  target.
\<close>

definition assign1 :: "Attributes \<Rightarrow> js_object \<Rightarrow> js_object" where
  "assign1 source target = fold (\<lambda>(key, v) to. Set_property key v to) source target"

definition Object_assign :: "js_object \<Rightarrow> Attributes list \<Rightarrow> js_object" where
  "Object_assign target sources = fold assign1 sources target"

section \<open>The wire format (cloudtracev2, protobuf, rpc)\<close>

text \<open>
  A message is a record of the fields the transformer sets. A field that holds a message
  is optional on the wire: it is \<open>None\<close> when absent and \<open>Some\<close> when \<open>create\<close> was
  given a value for it. A scalar field that is not given keeps the default of its type.
\<close>

record TruncatableString =
  ts_value :: string

record AttributeValue =
  intValue :: "jsnumber option"
  boolValue :: "bool option"
  stringValue :: "TruncatableString option"

definition AttributeValue_create :: AttributeValue where
  "AttributeValue_create = \<lparr>intValue = None, boolValue = None, stringValue = None\<rparr>"

record Span_Attributes =
  attributeMap :: "(string \<times> AttributeValue) list"
  droppedAttributesCount :: int

section \<open>transform.ts: attributes\<close>

definition AGENT_LABEL_KEY :: string where
  "AGENT_LABEL_KEY = ''g.co/agent''"

text \<open>
  The two version constants come from modules outside the sources at hand
  (\<open>@opentelemetry/core\<close> and \<open>./version\<close>); they are parameters.
\<close>

definition AGENT_LABEL_VALUE :: "string \<Rightarrow> string \<Rightarrow> string" where
  "AGENT_LABEL_VALUE CORE_VERSION VERSION =
     ''opentelemetry-js '' @ CORE_VERSION @ ''; google-cloud-trace-exporter '' @ VERSION"

definition stringToTruncatableString :: "string \<Rightarrow> TruncatableString" where
  "stringToTruncatableString v = \<lparr>ts_value = v\<rparr>"

definition valueToAttributeValue :: "jsvalue \<Rightarrow> AttributeValue" where
  "valueToAttributeValue v =
     (let attributeValue = AttributeValue_create in
      case v of
        JNumber n \<Rightarrow> attributeValue\<lparr>intValue := Some (Math_round n)\<rparr>
      | JBoolean b \<Rightarrow> attributeValue\<lparr>boolValue := Some b\<rparr>
      | JString s \<Rightarrow> attributeValue\<lparr>stringValue := Some (stringToTruncatableString s)\<rparr>
      | _ \<Rightarrow> attributeValue)"

text \<open>
  The assignment \<open>out[key] = message\<close> on the object \<open>out\<close>, created by \<open>{}\<close>:
  it replaces the value of an own key and adds any other key at the end, except that
  \<open>__proto__\<close> goes to the setter of \<open>Object.prototype\<close>, which makes the message
  the prototype of \<open>out\<close> and adds no own key. What a later assignment finds on that
  prototype is decided by the generated module \<open>./types\<close>, which is not among the
  sources; the prototype of \<open>out\<close> is not followed.
\<close>

definition out_set ::
  "string \<Rightarrow> AttributeValue \<Rightarrow> (string \<times> AttributeValue) list \<Rightarrow> (string \<times> AttributeValue) list" where
  "out_set key message out =
     (if key = ''__proto__'' then out else AList.update key message out)"

text \<open>
  The loop of \<open>transformAttributeValues\<close>: one step for each entry of
  \<open>Object.entries(attributes)\<close>, with \<open>out\<close> threaded through; the
  \<open>switch\<close> on \<open>typeof value\<close> is the test of the step.
\<close>

fun transformAttributeValues_loop ::
  "(string \<times> jsvalue) list \<Rightarrow> (string \<times> AttributeValue) list \<Rightarrow> (string \<times> AttributeValue) list" where
  "transformAttributeValues_loop [] out = out"
| "transformAttributeValues_loop ((key, v) # rest) out =
     transformAttributeValues_loop rest
       (if typeof v = ''number'' \<or> typeof v = ''boolean'' \<or> typeof v = ''string''
        then out_set key (valueToAttributeValue v) out
        else out)"

definition transformAttributeValues :: "Attributes \<Rightarrow> (string \<times> AttributeValue) list" where
  "transformAttributeValues attributes = transformAttributeValues_loop attributes []"

section \<open>The spans of the SDK (input)\<close>

text \<open>
  Only the fields the transformer reads are kept. An optional field of the SDK's types
  (\<open>isRemote?\<close>, \<open>parentSpanId?\<close>, \<open>attributes?\<close> of a link or an event,
  \<open>message?\<close> of a status) is an \<open>option\<close>, \<open>None\<close> for \<open>undefined\<close>.
\<close>

record SpanContext =
  traceId :: string
  spanId :: string
  isRemote :: "bool option"

record Link =
  link_context :: SpanContext
  link_attributes :: "Attributes option"

type_synonym HrTime = "int \<times> int"

record TimedEvent =
  event_time :: HrTime
  event_name :: string
  event_attributes :: "Attributes option"

record Status =
  status_code :: int
  status_message :: "string option"

record Resource =
  labels :: Attributes

definition Resource_empty :: Resource where
  "Resource_empty = \<lparr>labels = []\<rparr>"

record ReadableSpan =
  name :: string
  spanContext :: SpanContext
  parentSpanId :: "string option"
  startTime :: HrTime
  endTime :: HrTime
  status :: Status
  attributes :: Attributes
  links :: "Link list"
  events :: "TimedEvent list"
  resource :: Resource

section \<open>The messages of a wire span\<close>

record BoolValue =
  bool_value :: bool

record Timestamp =
  seconds :: int
  nanos :: int

record rpc_Status =
  code :: int
  message :: string

datatype Link_Type = TYPE_UNSPECIFIED | CHILD_LINKED_SPAN | PARENT_LINKED_SPAN

record Span_Link =
  Link_attributes :: "Span_Attributes option"
  Link_spanId :: string
  Link_traceId :: string
  Link_type :: Link_Type

record Span_Links =
  link :: "Span_Link list"

record Annotation =
  Annotation_attributes :: "Span_Attributes option"
  Annotation_description :: "TruncatableString option"

record Span_TimeEvent =
  TimeEvent_time :: "Timestamp option"
  TimeEvent_annotation :: "Annotation option"

record Span_TimeEvents =
  timeEvent :: "Span_TimeEvent list"

record Span =
  Span_attributes :: "Span_Attributes option"
  Span_displayName :: "TruncatableString option"
  Span_links :: "Span_Links option"
  Span_endTime :: "Timestamp option"
  Span_startTime :: "Timestamp option"
  Span_name :: string
  Span_spanId :: string
  Span_parentSpanId :: string
  Span_sameProcessAsParentSpan :: "BoolValue option"
  Span_status :: "rpc_Status option"
  Span_timeEvents :: "Span_TimeEvents option"

section \<open>transform.ts: the span transformer\<close>

text \<open>
  \<open>transformAttributes\<close>: a parameter that is \<open>undefined\<close> (\<open>None\<close>) takes its
  default, \<open>{}\<close>, \<open>{}\<close> and \<open>Resource.empty()\<close>. Of the merged object only the own
  entries are read afterwards (\<open>Object.keys\<close>, \<open>Object.entries\<close>), so the constant
  \<open>attributes\<close> is kept as those.
\<close>

definition transformAttributes ::
  "Attributes option \<Rightarrow> Attributes option \<Rightarrow> Resource option \<Rightarrow> Span_Attributes" where
  "transformAttributes requestAttributes_arg serviceAttributes_arg resource_arg =
     (let requestAttributes = (case requestAttributes_arg of None \<Rightarrow> [] | Some a \<Rightarrow> a);
          serviceAttributes = (case serviceAttributes_arg of None \<Rightarrow> [] | Some a \<Rightarrow> a);
          resource = (case resource_arg of None \<Rightarrow> Resource_empty | Some r \<Rightarrow> r);
          attributes = Object_entries
            (Object_assign empty_object [requestAttributes, serviceAttributes, labels resource]);
          attributeMap = transformAttributeValues attributes
      in \<lparr>attributeMap = attributeMap,
          droppedAttributesCount =
            int (length (Object_keys attributes)) - int (length (Object_keys attributeMap))\<rparr>)"

definition transformBool :: "bool \<Rightarrow> BoolValue" where
  "transformBool v = \<lparr>bool_value = v\<rparr>"

definition transformTime :: "HrTime \<Rightarrow> Timestamp" where
  "transformTime time = \<lparr>seconds = fst time, nanos = snd time\<rparr>"

text \<open>\<open>create\<close> skips a property that is \<open>undefined\<close>: the message keeps its default, the empty string.\<close>

definition transformStatus :: "Status \<Rightarrow> rpc_Status" where
  "transformStatus st =
     \<lparr>code = status_code st,
      message = (case status_message st of None \<Rightarrow> [] | Some m \<Rightarrow> m)\<rparr>"

definition transformLink :: "Link \<Rightarrow> Span_Link" where
  "transformLink l =
     \<lparr>Link_attributes = Some (transformAttributes (link_attributes l) None None),
      Link_spanId = spanId (link_context l),
      Link_traceId = traceId (link_context l),
      Link_type = TYPE_UNSPECIFIED\<rparr>"

definition transformLinks :: "Link list \<Rightarrow> Span_Links" where
  "transformLinks ls = \<lparr>link = map transformLink ls\<rparr>"

definition transformTimeEvent :: "TimedEvent \<Rightarrow> Span_TimeEvent" where
  "transformTimeEvent event =
     \<lparr>TimeEvent_time = Some (transformTime (event_time event)),
      TimeEvent_annotation = Some
        \<lparr>Annotation_attributes = Some (transformAttributes (event_attributes event) None None),
         Annotation_description = Some (stringToTruncatableString (event_name event))\<rparr>\<rparr>"

definition transformTimeEvents :: "TimedEvent list \<Rightarrow> Span_TimeEvents" where
  "transformTimeEvents es = \<lparr>timeEvent = map transformTimeEvent es\<rparr>"

text \<open>
  The truth value of an optional boolean and of an optional string, as \<open>!\<close> and \<open>if\<close>
  take it: \<open>undefined\<close>, \<open>false\<close> and the empty string are falsy.
\<close>

definition truthy_bool :: "bool option \<Rightarrow> bool" where
  "truthy_bool b = (case b of None \<Rightarrow> False | Some v \<Rightarrow> v)"

definition truthy_string :: "string option \<Rightarrow> bool" where
  "truthy_string s = (case s of None \<Rightarrow> False | Some v \<Rightarrow> v \<noteq> [])"

definition getReadableSpanTransformer :: "string \<Rightarrow> string \<Rightarrow> string \<Rightarrow> ReadableSpan \<Rightarrow> Span" where
  "getReadableSpanTransformer CORE_VERSION VERSION projectId readableSpan =
     (let attributes = transformAttributes
            (Some (attributes readableSpan))
            (Some [(''project_id'', JString projectId),
                   (AGENT_LABEL_KEY, JString (AGENT_LABEL_VALUE CORE_VERSION VERSION))])
            (Some (resource readableSpan));
          out = \<lparr>Span_attributes = Some attributes,
                 Span_displayName = Some (stringToTruncatableString (name readableSpan)),
                 Span_links = Some (transformLinks (links readableSpan)),
                 Span_endTime = Some (transformTime (endTime readableSpan)),
                 Span_startTime = Some (transformTime (startTime readableSpan)),
                 Span_name = ''projects/'' @ projectId @ ''/traces/'' @ traceId (spanContext readableSpan)
                               @ ''/spans/'' @ spanId (spanContext readableSpan),
                 Span_spanId = spanId (spanContext readableSpan),
                 Span_parentSpanId = [],
                 Span_sameProcessAsParentSpan =
                   Some (transformBool (\<not> truthy_bool (isRemote (spanContext readableSpan)))),
                 Span_status = Some (transformStatus (status readableSpan)),
                 Span_timeEvents = Some (transformTimeEvents (events readableSpan))\<rparr>
      in if truthy_string (parentSpanId readableSpan)
         then out\<lparr>Span_parentSpanId := the (parentSpanId readableSpan)\<rparr>
         else out)"

section \<open>trace.ts: the exporter\<close>

datatype ExportResult = SUCCESS | FAILED_NOT_RETRYABLE | FAILED_RETRYABLE

record BatchWriteSpansRequest =
  request_name :: string
  request_spans :: "Span list"

text \<open>
  The field \<open>_projectId\<close> is a promise until the first export has awaited it, and the
  value the promise settled to from then on: \<open>Some\<close> id, or \<open>None\<close> for \<open>undefined\<close>,
  which is what the \<open>catch\<close> handler of the constructor leaves when
  \<open>getProjectId\<close> rejects.
\<close>

datatype ProjectId = Promise "string option" | Awaited "string option"

type_synonym Credentials = string

datatype TraceService = TraceService Credentials

record TraceExporter =
  projectId_field :: ProjectId
  traceServiceClient :: "TraceService option"

text \<open>
  What an export does to the outside, in order: calls of the logger, of the auth library,
  of the RPC client (the one network call) and of the result callback.
\<close>

datatype effect =
    Logger_debug string
  | Logger_error string
  | Auth_getProjectId
  | Auth_getClient
  | RPC_batchWriteSpans TraceService BatchWriteSpansRequest
  | ResultCallback ExportResult

text \<open>
  What the outside answers during one export: \<open>auth.getClient()\<close> rejects with an
  error message or resolves with credentials, and the RPC hands its callback an error
  message or \<open>null\<close>. Every promise awaited is taken to settle.
\<close>

record Answers =
  auth_getClient :: "string + Credentials"
  batchWriteSpans_err :: "string option"

text \<open>The constructor, given how \<open>auth.getProjectId()\<close> will settle.\<close>

definition TraceExporter_new :: "string + string \<Rightarrow> TraceExporter \<times> effect list" where
  "TraceExporter_new getProjectId_answer =
     (case getProjectId_answer of
        Inl err \<Rightarrow>
          (\<lparr>projectId_field = Promise None, traceServiceClient = None\<rparr>,
           [Auth_getProjectId, Logger_error err])
      | Inr pid \<Rightarrow>
          (\<lparr>projectId_field = Promise (Some pid), traceServiceClient = None\<rparr>,
           [Auth_getProjectId]))"

definition getClient :: "Answers \<Rightarrow> (string + TraceService) \<times> effect list" where
  "getClient answers =
     (case auth_getClient answers of
        Inl err \<Rightarrow> (Inl err, [Logger_debug ''Google Cloud Trace authenticating'', Auth_getClient])
      | Inr creds \<Rightarrow>
          (Inr (TraceService creds),
           [Logger_debug ''Google Cloud Trace authenticating'', Auth_getClient,
            Logger_debug ''Google Cloud Trace got authentication. Initializaing rpc client'']))"

text \<open>The call of the client, with the body of the callback handed to it.\<close>

definition call_batchWriteSpans ::
  "TraceService \<Rightarrow> Answers \<Rightarrow> BatchWriteSpansRequest \<Rightarrow> ExportResult \<times> effect list" where
  "call_batchWriteSpans client answers request =
     (case batchWriteSpans_err answers of
        Some err \<Rightarrow>
          (FAILED_RETRYABLE,
           [RPC_batchWriteSpans client request, Logger_error (''batchWriteSpans error: '' @ err)])
      | None \<Rightarrow>
          (SUCCESS,
           [RPC_batchWriteSpans client request, Logger_debug ''batchWriteSpans successfully'']))"

definition batchWriteSpans ::
  "TraceExporter \<Rightarrow> Answers \<Rightarrow> BatchWriteSpansRequest \<Rightarrow> TraceExporter \<times> ExportResult \<times> effect list" where
  "batchWriteSpans this answers request =
     (let log = [Logger_debug ''Google Cloud Trace batch writing traces''] in
      case traceServiceClient this of
        None \<Rightarrow>
          (case getClient answers of
             (Inl err, effs) \<Rightarrow>
               (this, FAILED_NOT_RETRYABLE,
                log @ effs @ [Logger_error (''authorize error: '' @ err)])
           | (Inr client, effs) \<Rightarrow>
               (let (result, effs') = call_batchWriteSpans client answers request
                in (this\<lparr>traceServiceClient := Some client\<rparr>, result, log @ effs @ effs')))
      | Some client \<Rightarrow>
          (let (result, effs') = call_batchWriteSpans client answers request
           in (this, result, log @ effs')))"

text \<open>
  \<open>export\<close>. The first parameters are the version constants the transformer takes.
\<close>

definition export ::
  "string \<Rightarrow> string \<Rightarrow> TraceExporter \<Rightarrow> Answers \<Rightarrow> ReadableSpan list \<Rightarrow> TraceExporter \<times> effect list" where
  "export CORE_VERSION VERSION this answers spans =
     (let this1 = (case projectId_field this of
                     Promise r \<Rightarrow> this\<lparr>projectId_field := Awaited r\<rparr>
                   | Awaited _ \<Rightarrow> this)
      in case projectId_field this1 of
           Awaited (Some pid) \<Rightarrow>
             (if pid = [] then (this1, [ResultCallback FAILED_NOT_RETRYABLE])
              else
                let request = \<lparr>request_name = ''projects/'' @ pid,
                               request_spans =
                                 map (getReadableSpanTransformer CORE_VERSION VERSION pid) spans\<rparr>;
                    (this2, result, effs) = batchWriteSpans this1 answers request
                in (this2,
                    [Logger_debug ''Google Cloud Trace export''] @ effs @ [ResultCallback result]))
         | _ \<Rightarrow> (this1, [ResultCallback FAILED_NOT_RETRYABLE]))"

text \<open>A sequence of export calls on one instance, each with its answers and its spans.\<close>

fun exports ::
  "string \<Rightarrow> string \<Rightarrow> TraceExporter \<Rightarrow> (Answers \<times> ReadableSpan list) list
     \<Rightarrow> TraceExporter \<times> effect list list" where
  "exports CORE_VERSION VERSION this [] = (this, [])"
| "exports CORE_VERSION VERSION this ((answers, spans) # calls) =
     (let (this', effs) = export CORE_VERSION VERSION this answers spans;
          (this'', rest) = exports CORE_VERSION VERSION this' calls
      in (this'', effs # rest))"

text \<open>Whether a project id is there, as \<open>!this._projectId\<close> takes it after the \<open>await\<close>.\<close>

definition has_projectId :: "TraceExporter \<Rightarrow> bool" where
  "has_projectId this =
     (case projectId_field this of
        Promise r \<Rightarrow> truthy_string r
      | Awaited r \<Rightarrow> truthy_string r)"

section \<open>Notions the properties are stated with\<close>

text \<open>
  The value of the constant \<open>attributes\<close> inside \<open>transformAttributes\<close> (the merged
  mapping), and the object literal \<open>getReadableSpanTransformer\<close> passes as
  \<open>serviceAttributes\<close>.
\<close>

definition merged_attributes ::
  "Attributes option \<Rightarrow> Attributes option \<Rightarrow> Resource option \<Rightarrow> Attributes" where
  "merged_attributes requestAttributes_arg serviceAttributes_arg resource_arg =
     Object_entries (Object_assign empty_object
       [case requestAttributes_arg of None \<Rightarrow> [] | Some a \<Rightarrow> a,
        case serviceAttributes_arg of None \<Rightarrow> [] | Some a \<Rightarrow> a,
        labels (case resource_arg of None \<Rightarrow> Resource_empty | Some r \<Rightarrow> r)])"

definition span_serviceAttributes :: "string \<Rightarrow> string \<Rightarrow> string \<Rightarrow> Attributes" where
  "span_serviceAttributes CORE_VERSION VERSION projectId =
     [(''project_id'', JString projectId),
      (AGENT_LABEL_KEY, JString (AGENT_LABEL_VALUE CORE_VERSION VERSION))]"

text \<open>A value of a supported scalar type: a number, a boolean or a string.\<close>

definition supported :: "jsvalue \<Rightarrow> bool" where
  "supported v \<longleftrightarrow> typeof v = ''number'' \<or> typeof v = ''boolean'' \<or> typeof v = ''string''"

text \<open>
  Whether a merged mapping is free of an own key \<open>__proto__\<close> with a value of a
  supported type, the one entry at which the loop of \<open>transformAttributeValues\<close>
  assigns to \<open>out.__proto__\<close>.
\<close>

definition proto_free :: "Attributes \<Rightarrow> bool" where
  "proto_free m = (case map_of m ''__proto__'' of None \<Rightarrow> True | Some v \<Rightarrow> \<not> supported v)"

text \<open>An object holds each of its keys once.\<close>

definition well_formed :: "(string \<times> 'v) list \<Rightarrow> bool" where
  "well_formed obj = distinct (Object_keys obj)"

text \<open>Whether a number is an integer.\<close>

fun is_integer :: "jsnumber \<Rightarrow> bool" where
  "is_integer (Finite x) = (of_int \<lfloor>x\<rfloor> = x)"
| "is_integer NaN = False"
| "is_integer PosInfinity = False"
| "is_integer NegInfinity = False"

text \<open>The span of the fixture of \<open>transform.test.ts\<close>.\<close>

definition test_spanContext :: SpanContext where
  "test_spanContext =
     \<lparr>traceId = ''d4cda95b652f4a1592b449d5929fda1b'',
      spanId = ''6e0c63257de34c92'',
      isRemote = Some True\<rparr>"

definition test_readableSpan :: ReadableSpan where
  "test_readableSpan =
     \<lparr>name = ''my-span'',
      spanContext = test_spanContext,
      parentSpanId = None,
      startTime = (1566156729, 709),
      endTime = (1566156731, 709),
      status = \<lparr>status_code = 0, status_message = None\<rparr>,
      attributes = [],
      links = [],
      events = [],
      resource = \<lparr>labels = [(''service'', JString ''ui''),
                           (''version'', JNumber (Finite 1)),
                           (''cost'', JNumber (Finite 112.12))]\<rparr>\<rparr>"

text \<open>
  The same span with request attributes of its own, two of them under keys that the agent
  label and a resource label use as well.
\<close>

definition test_collidingSpan :: ReadableSpan where
  "test_collidingSpan =
     test_readableSpan\<lparr>attributes :=
       [(''service'', JString ''api''),
        (''g.co/agent'', JString ''mine''),
        (''testBool'', JBoolean True)]\<rparr>"


definition test_nullProtoSpan :: ReadableSpan where
  "test_nullProtoSpan =
     test_readableSpan\<lparr>attributes := [(''__proto__'', JNull)],
       resource := \<lparr>labels = [(''__proto__'', JNumber (Finite 5))]\<rparr>\<rparr>"

text \<open>Answers of the outside, for examples: all goes well, and the client cannot be built.\<close>

definition answers_ok :: Answers where
  "answers_ok = \<lparr>auth_getClient = Inr ''credentials'', batchWriteSpans_err = None\<rparr>"

definition answers_no_client :: Answers where
  "answers_no_client =
     \<lparr>auth_getClient = Inl ''Could not load the default credentials'',
      batchWriteSpans_err = None\<rparr>"

text \<open>
  What is observed of the effects of an export: the results handed to the callback, the
  network calls, and the number of attempts to build the client.
\<close>

fun callbacks :: "effect list \<Rightarrow> ExportResult list" where
  "callbacks [] = []"
| "callbacks (ResultCallback r # effs) = r # callbacks effs"
| "callbacks (_ # effs) = callbacks effs"

fun network_calls :: "effect list \<Rightarrow> (TraceService \<times> BatchWriteSpansRequest) list" where
  "network_calls [] = []"
| "network_calls (RPC_batchWriteSpans client request # effs) = (client, request) # network_calls effs"
| "network_calls (_ # effs) = network_calls effs"

definition client_builds :: "effect list \<Rightarrow> nat" where
  "client_builds effs = count_list effs Auth_getClient"

definition projectId_resolutions :: "effect list \<Rightarrow> nat" where
  "projectId_resolutions effs = count_list effs Auth_getProjectId"

text \<open>
  The three-way classification: from whether the client fails to build and whether the
  write reports an error to the result.
\<close>

definition three_way :: "bool \<Rightarrow> bool \<Rightarrow> ExportResult" where
  "three_way client_fails write_fails =
     (if client_fails then FAILED_NOT_RETRYABLE
      else if write_fails then FAILED_RETRYABLE
      else SUCCESS)"

text \<open>Whether this call has to build the client, and fails to.\<close>

definition client_fails_to_build :: "TraceExporter \<Rightarrow> Answers \<Rightarrow> bool" where
  "client_fails_to_build this answers \<longleftrightarrow>
     traceServiceClient this = None \<and> isl (auth_getClient answers)"

section \<open>Objects and the attribute transform: lemmas\<close>

lemma update_fresh: "k \<notin> fst ` set al \<Longrightarrow> AList.update k v al = al @ [(k, v)]"
  by (induction al) auto

lemma map_of_Set_property:
  "k \<noteq> ''__proto__'' \<Longrightarrow>
   map_of (fst (Set_property key v obj)) k = (if key = k then Some v else map_of (fst obj) k)"
  by (cases obj) (auto simp: Set_property_def update_conv')

lemma distinct_Set_property:
  "distinct (map fst (fst obj)) \<Longrightarrow> distinct (map fst (fst (Set_property key v obj)))"
  by (cases obj) (auto simp: Set_property_def distinct_update)

lemma map_of_assign1:
  "distinct (map fst source) \<Longrightarrow> k \<noteq> ''__proto__'' \<Longrightarrow>
   map_of (fst (assign1 source target)) k = (map_of (fst target) ++ map_of source) k"
  unfolding assign1_def
proof (induction source arbitrary: target)
  case Nil
  then show ?case by simp
next
  case (Cons e source)
  obtain key v where e: "e = (key, v)" by (cases e)
  from Cons.prems e have fresh: "map_of source key = None"
    by (simp add: map_of_eq_None_iff)
  have "map_of (fst (fold (\<lambda>(key, v). Set_property key v) source (Set_property key v target))) k
          = (map_of (fst (Set_property key v target)) ++ map_of source) k"
    using Cons.IH Cons.prems by simp
  also have "\<dots> = (map_of (fst target) ++ map_of ((key, v) # source)) k"
    using fresh Cons.prems(2)
    by (auto simp: map_of_Set_property map_add_def split: option.splits)
  finally have "map_of (fst (fold (\<lambda>(key, v). Set_property key v) source (Set_property key v target))) k
      = (map_of (fst target) ++ map_of ((key, v) # source)) k" .
  then show ?case unfolding e by (simp only: fold_simps prod.case)
qed

lemma distinct_assign1:
  "distinct (map fst (fst target)) \<Longrightarrow> distinct (map fst (fst (assign1 source target)))"
  unfolding assign1_def
  by (induction source arbitrary: target) (simp_all add: distinct_Set_property case_prod_beta)

lemma distinct_Object_assign:
  "distinct (map fst (fst target)) \<Longrightarrow> distinct (map fst (fst (Object_assign target sources)))"
  unfolding Object_assign_def
  by (induction sources arbitrary: target) (auto simp: distinct_assign1)

lemma well_formed_merged_attributes: "well_formed (merged_attributes a b c)"
  unfolding merged_attributes_def well_formed_def Object_keys_def Object_entries_def
  by (rule distinct_Object_assign) (simp add: empty_object_def)


lemma map_of_merged_resource:
  assumes "well_formed (labels r)" and "k \<noteq> ''__proto__''" and "map_of (labels r) k = Some x"
  shows "map_of (merged_attributes a b (Some r)) k = Some x"
proof -
  have d: "distinct (map fst (labels r))"
    using assms by (simp add: well_formed_def Object_keys_def)
  show ?thesis
    unfolding merged_attributes_def Object_assign_def Object_entries_def
    using assms(3) by (simp add: map_of_assign1 [OF d assms(2)])
qed

lemma loop_fresh:
  "distinct (map fst xs) \<Longrightarrow> fst ` set xs \<inter> fst ` set out = {} \<Longrightarrow>
   transformAttributeValues_loop xs out =
     out @ map (\<lambda>(key, v). (key, valueToAttributeValue v))
             (filter (\<lambda>(key, v). supported v \<and> key \<noteq> ''__proto__'') xs)"
proof (induction xs arbitrary: out)
  case Nil
  then show ?case by simp
next
  case (Cons e xs)
  obtain k v where e: "e = (k, v)" by (cases e)
  show ?case
  proof (cases "supported v \<and> k \<noteq> ''__proto__''")
    case True
    from Cons.prems e have "k \<notin> fst ` set out" by auto
    then have "AList.update k (valueToAttributeValue v) out = out @ [(k, valueToAttributeValue v)]"
      by (rule update_fresh)
    with True have upd: "out_set k (valueToAttributeValue v) out = out @ [(k, valueToAttributeValue v)]"
      by (simp add: out_set_def)
    from Cons.prems e have "fst ` set xs \<inter> fst ` set (out @ [(k, valueToAttributeValue v)]) = {}"
      by auto
    with Cons.IH Cons.prems have
      "transformAttributeValues_loop xs (out @ [(k, valueToAttributeValue v)]) =
         (out @ [(k, valueToAttributeValue v)]) @
           map (\<lambda>(key, v). (key, valueToAttributeValue v))
             (filter (\<lambda>(key, v). supported v \<and> key \<noteq> ''__proto__'') xs)"
      by simp
    with True upd show ?thesis by (simp add: e supported_def)
  next
    case False
    from Cons.prems have "fst ` set xs \<inter> fst ` set out = {}" by auto
    with Cons.IH Cons.prems have
      "transformAttributeValues_loop xs out =
         out @ map (\<lambda>(key, v). (key, valueToAttributeValue v))
             (filter (\<lambda>(key, v). supported v \<and> key \<noteq> ''__proto__'') xs)"
      by simp
    with False show ?thesis by (auto simp: e supported_def out_set_def)
  qed
qed

lemma filter_without_proto:
  assumes "proto_free xs" and "distinct (map fst xs)"
  shows "filter (\<lambda>(key, v). supported v \<and> key \<noteq> ''__proto__'') xs =
         filter (\<lambda>(key, v). supported v) xs"
proof (rule filter_cong [OF refl])
  fix e assume e: "e \<in> set xs"
  obtain key v where kv: "e = (key, v)" by (cases e)
  have "\<not> supported v" if "key = ''__proto__''"
  proof -
    from e kv that assms(2) have "map_of xs ''__proto__'' = Some v" by simp
    with assms(1) show ?thesis by (simp add: proto_free_def)
  qed
  then show "(case e of (key, v) \<Rightarrow> supported v \<and> key \<noteq> ''__proto__'') =
             (case e of (key, v) \<Rightarrow> supported v)"
    by (auto simp: kv)
qed

lemma transformAttributeValues_merged:
  assumes "proto_free (merged_attributes a b c)"
  shows "transformAttributeValues (merged_attributes a b c) =
     map (\<lambda>(key, v). (key, valueToAttributeValue v))
       (filter (\<lambda>(key, v). supported v) (merged_attributes a b c))"
proof -
  have "distinct (map fst (merged_attributes a b c))"
    using well_formed_merged_attributes [of a b c] by (simp add: well_formed_def Object_keys_def)
  then show ?thesis
    unfolding transformAttributeValues_def
    by (simp add: loop_fresh filter_without_proto [OF assms])
qed

lemma transformAttributes_unfold:
  "transformAttributes a b c =
     \<lparr>attributeMap = transformAttributeValues (merged_attributes a b c),
      droppedAttributesCount =
        int (length (merged_attributes a b c))
          - int (length (transformAttributeValues (merged_attributes a b c)))\<rparr>"
  unfolding transformAttributes_def merged_attributes_def Object_keys_def Let_def by simp

lemma map_of_converted:
  "map_of (map (\<lambda>(key, v). (key, f v)) (filter (\<lambda>(key, v). P v) xs)) k =
     (case map_of xs k of None \<Rightarrow> None | Some v \<Rightarrow> if P v then Some (f v) else None)"
  if "distinct (map fst xs)"
  using that
proof (induction xs)
  case Nil
  then show ?case by simp
next
  case (Cons e xs)
  obtain k' v' where e: "e = (k', v')" by (cases e)
  from Cons.prems e have "map_of xs k' = None" by (simp add: map_of_eq_None_iff)
  with Cons show ?case by (auto simp: e split: option.splits)
qed

lemma attributeMap_lookup:
  assumes "proto_free (merged_attributes a b c)"
  shows "map_of (attributeMap (transformAttributes a b c)) k =
     (case map_of (merged_attributes a b c) k of
        None \<Rightarrow> None
      | Some v \<Rightarrow> if supported v then Some (valueToAttributeValue v) else None)"
proof -
  have "distinct (map fst (merged_attributes a b c))"
    using well_formed_merged_attributes [of a b c] by (simp add: well_formed_def Object_keys_def)
  then show ?thesis
    by (simp add: transformAttributes_unfold transformAttributeValues_merged [OF assms]
        map_of_converted)
qed

lemma Span_attributes_transformer:
  "Span_attributes (getReadableSpanTransformer cv v pid s) =
     Some (transformAttributes (Some (attributes s)) (Some (span_serviceAttributes cv v pid))
             (Some (resource s)))"
  unfolding getReadableSpanTransformer_def span_serviceAttributes_def Let_def by simp


lemma transformAttributes_empty:
  "transformAttributes None None None = \<lparr>attributeMap = [], droppedAttributesCount = 0\<rparr>"
  "transformAttributes (Some []) None None = \<lparr>attributeMap = [], droppedAttributesCount = 0\<rparr>"
  by (simp_all add: transformAttributes_def Object_assign_def assign1_def Resource_empty_def
      transformAttributeValues_def Object_keys_def Object_entries_def empty_object_def)

lemma nearest:
  fixes x :: rat
  shows "\<bar>of_int \<lfloor>x + 1 / 2\<rfloor> - x\<bar> \<le> \<bar>of_int i - x\<bar>"
proof -
  define r where "r = \<lfloor>x + 1 / 2\<rfloor>"
  have lo: "of_int r \<le> x + 1 / 2" and hi: "x + 1 / 2 < of_int r + 1"
    unfolding r_def by linarith+
  consider "i \<le> r - 1" | "i = r" | "r + 1 \<le> i" by linarith
  then show ?thesis
  proof cases
    case 1
    then have "(of_int i :: rat) \<le> of_int r - 1"
      by (metis of_int_1 of_int_diff of_int_le_iff)
    with lo hi show ?thesis unfolding r_def [symmetric] by linarith
  next
    case 2
    then show ?thesis unfolding r_def [symmetric] by simp
  next
    case 3
    then have "(of_int r :: rat) + 1 \<le> of_int i"
      by (metis of_int_1 of_int_add of_int_le_iff)
    with lo hi show ?thesis unfolding r_def [symmetric] by linarith
  qed
qed

lemma valueToAttributeValue_number:
  "valueToAttributeValue (JNumber n) =
     \<lparr>intValue = Some (Math_round n), boolValue = None, stringValue = None\<rparr>"
  by (simp add: valueToAttributeValue_def AttributeValue_create_def)

lemmas fixture_defs = test_collidingSpan_def test_readableSpan_def test_spanContext_def
  well_formed_def Object_keys_def span_serviceAttributes_def AGENT_LABEL_KEY_def

section \<open>The exporter: lemmas\<close>

lemma callbacks_append: "callbacks (xs @ ys) = callbacks xs @ callbacks ys"
  by (induction xs rule: callbacks.induct) simp_all

lemma batchWriteSpans_result:
  "fst (snd (batchWriteSpans this answers request)) =
     three_way (client_fails_to_build this answers) (batchWriteSpans_err answers \<noteq> None)"
  by (auto simp: batchWriteSpans_def three_way_def client_fails_to_build_def Let_def getClient_def
      call_batchWriteSpans_def split: option.splits sum.splits prod.splits)

lemma batchWriteSpans_callbacks:
  "callbacks (snd (snd (batchWriteSpans this answers request))) = []"
  by (auto simp: batchWriteSpans_def Let_def getClient_def callbacks_append
      call_batchWriteSpans_def split: option.splits sum.splits prod.splits)

lemma batchWriteSpans_projectId:
  "projectId_field (fst (batchWriteSpans this answers request)) = projectId_field this"
  by (auto simp: batchWriteSpans_def Let_def split: option.splits sum.splits prod.splits)

lemma batchWriteSpans_client:
  "traceServiceClient (fst (batchWriteSpans this answers request)) =
     (case traceServiceClient this of
        Some client \<Rightarrow> Some client
      | None \<Rightarrow> (case auth_getClient answers of
                   Inl err \<Rightarrow> None
                 | Inr creds \<Rightarrow> Some (TraceService creds)))"
  by (auto simp: batchWriteSpans_def Let_def getClient_def
      split: option.splits sum.splits prod.splits)

lemma batchWriteSpans_builds:
  "client_builds (snd (snd (batchWriteSpans this answers request))) =
     (if traceServiceClient this = None then 1 else 0)"
  by (auto simp: batchWriteSpans_def Let_def getClient_def client_builds_def
      call_batchWriteSpans_def split: option.splits sum.splits prod.splits)

lemma export_no_projectId:
  assumes "\<not> has_projectId this"
  shows "snd (export cv v this answers spans) = [ResultCallback FAILED_NOT_RETRYABLE]"
    and "traceServiceClient (fst (export cv v this answers spans)) = traceServiceClient this"
    and "\<not> has_projectId (fst (export cv v this answers spans))"
  using assms
  by (auto simp: export_def has_projectId_def truthy_string_def Let_def
      split: ProjectId.splits option.splits)

lemma export_with_projectId:
  assumes "has_projectId this"
  shows "callbacks (snd (export cv v this answers spans)) =
           [three_way (client_fails_to_build this answers) (batchWriteSpans_err answers \<noteq> None)]"
    and "has_projectId (fst (export cv v this answers spans))"
    and "traceServiceClient (fst (export cv v this answers spans)) =
     (case traceServiceClient this of
        Some client \<Rightarrow> Some client
      | None \<Rightarrow> (case auth_getClient answers of
                   Inl err \<Rightarrow> None
                 | Inr creds \<Rightarrow> Some (TraceService creds)))"
    and "client_builds (snd (export cv v this answers spans)) =
           (if traceServiceClient this = None then 1 else 0)"
proof -
  obtain pid where pid: "pid \<noteq> []"
    "projectId_field this = Promise (Some pid) \<or> projectId_field this = Awaited (Some pid)"
    using assms
    by (auto simp: has_projectId_def truthy_string_def split: ProjectId.splits option.splits)
  define this1 where "this1 = this\<lparr>projectId_field := Awaited (Some pid)\<rparr>"
  define request where "request = \<lparr>request_name = ''projects/'' @ pid,
         request_spans = map (getReadableSpanTransformer cv v pid) spans\<rparr>"
  have ex: "export cv v this answers spans =
     (fst (batchWriteSpans this1 answers request),
      [Logger_debug ''Google Cloud Trace export'']
        @ snd (snd (batchWriteSpans this1 answers request))
        @ [ResultCallback (fst (snd (batchWriteSpans this1 answers request)))])"
  proof -
    have same: "this\<lparr>projectId_field := Awaited (Some pid)\<rparr> = this"
      if "projectId_field this = Awaited (Some pid)"
      using that by (cases this) simp
    from pid(2) show ?thesis
    proof
      assume "projectId_field this = Promise (Some pid)"
      with pid(1) show ?thesis
        by (simp add: export_def Let_def this1_def request_def case_prod_beta)
    next
      assume aw: "projectId_field this = Awaited (Some pid)"
      then have "this1 = this"
        unfolding this1_def by (rule same)
      with pid(1) aw show ?thesis
        by (simp add: export_def Let_def request_def case_prod_beta)
    qed
  qed
  have c: "traceServiceClient this1 = traceServiceClient this"
    by (simp add: this1_def)
  then have f: "client_fails_to_build this1 answers = client_fails_to_build this answers"
    by (simp add: client_fails_to_build_def)
  show "callbacks (snd (export cv v this answers spans)) =
           [three_way (client_fails_to_build this answers) (batchWriteSpans_err answers \<noteq> None)]"
    by (simp add: ex callbacks_append batchWriteSpans_callbacks batchWriteSpans_result f)
  show "has_projectId (fst (export cv v this answers spans))"
    using pid by (simp add: ex has_projectId_def batchWriteSpans_projectId this1_def truthy_string_def)
  show "traceServiceClient (fst (export cv v this answers spans)) =
     (case traceServiceClient this of
        Some client \<Rightarrow> Some client
      | None \<Rightarrow> (case auth_getClient answers of
                   Inl err \<Rightarrow> None
                 | Inr creds \<Rightarrow> Some (TraceService creds)))"
    by (simp add: ex batchWriteSpans_client c)
  show "client_builds (snd (export cv v this answers spans)) =
           (if traceServiceClient this = None then 1 else 0)"
    using batchWriteSpans_builds [of this1 answers request]
    by (simp add: ex c client_builds_def)
qed

lemma exports_no_projectId:
  "\<not> has_projectId this \<Longrightarrow>
   snd (exports cv v this calls) = replicate (length calls) [ResultCallback FAILED_NOT_RETRYABLE]
   \<and> \<not> has_projectId (fst (exports cv v this calls))"
proof (induction calls arbitrary: this)
  case Nil
  then show ?case by simp
next
  case (Cons call calls)
  obtain answers spans where call: "call = (answers, spans)" by (cases call)
  let ?this' = "fst (export cv v this answers spans)"
  from Cons.prems have e: "snd (export cv v this answers spans) = [ResultCallback FAILED_NOT_RETRYABLE]"
    and h: "\<not> has_projectId ?this'"
    by (simp_all add: export_no_projectId)
  from Cons.IH [OF h] e show ?case
    by (simp add: call case_prod_beta)
qed

section \<open>Properties of the span transformer\<close>




text \<open>
  Claim C2, as stated: the resource labels have the lowest precedence, so that under a key
  that the resource labels and the request attributes share the request value is
  retained. It fails on the span with colliding keys: the request attributes say
  \<open>service = api\<close>, the resource labels say \<open>service = ui\<close>, and the output holds
  \<open>ui\<close>.
\<close>

theorem resource_labels_lowest_counterexample:
  "map_of (attributes test_collidingSpan) ''service'' = Some (JString ''api'')
   \<and> map_of (labels (resource test_collidingSpan)) ''service'' = Some (JString ''ui'')
   \<and> map_of (attributeMap (the (Span_attributes
        (getReadableSpanTransformer ''0.10.0'' ''0.3.0'' ''project-id'' test_collidingSpan))))
        ''service'' = Some (valueToAttributeValue (JString ''ui''))
   \<and> valueToAttributeValue (JString ''ui'') \<noteq> valueToAttributeValue (JString ''api'')"
  by code_simp

text \<open>
  Claim C2, amended: the resource labels are merged into every span's attributes with the
  highest precedence. A key of the resource labels other than \<open>__proto__\<close> has the
  resource's value in the merged map, whatever the request attributes and the service
  attributes hold under it; and when the merged map has no own key \<open>__proto__\<close> of a
  supported type, the output map holds that value converted when its type is supported.
\<close>

theorem resource_labels_override:
  assumes "well_formed (labels (resource s))" and "map_of (labels (resource s)) k = Some x"
    and "k \<noteq> ''__proto__''"
  shows "map_of (merged_attributes (Some (attributes s))
                   (Some (span_serviceAttributes cv v pid)) (Some (resource s))) k = Some x
         \<and> (proto_free (merged_attributes (Some (attributes s))
                   (Some (span_serviceAttributes cv v pid)) (Some (resource s)))
              \<longrightarrow> map_of (attributeMap (the (Span_attributes
                       (getReadableSpanTransformer cv v pid s)))) k =
                     (if supported x then Some (valueToAttributeValue x) else None))"
  using assms
  by (simp add: Span_attributes_transformer attributeMap_lookup map_of_merged_resource)

theorem resource_labels_override_witness:
  "well_formed (labels (resource test_collidingSpan))
   \<and> map_of (labels (resource test_collidingSpan)) ''service'' = Some (JString ''ui'')
   \<and> ''service'' \<noteq> ''__proto__''
   \<and> proto_free (merged_attributes (Some (attributes test_collidingSpan))
               (Some (span_serviceAttributes ''0.10.0'' ''0.3.0'' ''project-id''))
               (Some (resource test_collidingSpan)))
   \<and> map_of (attributes test_collidingSpan) ''service'' = Some (JString ''api'')
   \<and> map_of (merged_attributes (Some (attributes test_collidingSpan))
               (Some (span_serviceAttributes ''0.10.0'' ''0.3.0'' ''project-id''))
               (Some (resource test_collidingSpan))) ''service'' = Some (JString ''ui'')
   \<and> map_of (attributeMap (the (Span_attributes
        (getReadableSpanTransformer ''0.10.0'' ''0.3.0'' ''project-id'' test_collidingSpan))))
        ''service'' = Some (valueToAttributeValue (JString ''ui''))"
proof -
  have h1: "well_formed (labels (resource test_collidingSpan))"
    by (simp add: fixture_defs)
  have h2: "map_of (labels (resource test_collidingSpan)) ''service'' = Some (JString ''ui'')"
    by (simp add: fixture_defs)
  have h3: "''service'' \<noteq> ''__proto__''"
    by simp
  have h4: "proto_free (merged_attributes (Some (attributes test_collidingSpan))
               (Some (span_serviceAttributes ''0.10.0'' ''0.3.0'' ''project-id''))
               (Some (resource test_collidingSpan)))"
    by code_simp
  have h5: "map_of (attributes test_collidingSpan) ''service'' = Some (JString ''api'')"
    by (simp add: fixture_defs)
  have s: "supported (JString ''ui'')"
    by (simp add: supported_def)
  show ?thesis
    using h1 h2 h3 h4 h5 s
      resource_labels_override [OF h1 h2 h3, of "''0.10.0''" "''0.3.0''" "''project-id''"]
    by presburger
qed

text \<open>
  Claim C3, as stated: \<open>droppedAttributesCount\<close> is the number of keys of the merged
  mapping minus the number of keys whose value is of a supported scalar type. It fails
  when the merged mapping has an own key \<open>__proto__\<close> with such a value. Request
  attributes with the own entry \<open>__proto__: null\<close> make \<open>null\<close> the prototype of the
  merged object, so that the resource label \<open>__proto__: 5\<close> becomes an own key of it;
  in the loop the assignment to \<open>out.__proto__\<close> goes to the setter and adds no key.
  The merged mapping has three keys, all three of a supported type, the output map has
  two, and the dropped count is one.
\<close>

theorem dropped_count_proto_counterexample:
  "Object_keys (merged_attributes (Some (attributes test_nullProtoSpan))
      (Some (span_serviceAttributes ''0.10.0'' ''0.3.0'' ''project-id''))
      (Some (resource test_nullProtoSpan))) = [''project_id'', ''g.co/agent'', ''__proto__'']
   \<and> length (filter (\<lambda>(key, v). supported v)
        (merged_attributes (Some (attributes test_nullProtoSpan))
           (Some (span_serviceAttributes ''0.10.0'' ''0.3.0'' ''project-id''))
           (Some (resource test_nullProtoSpan)))) = 3
   \<and> Object_keys (attributeMap (the (Span_attributes
        (getReadableSpanTransformer ''0.10.0'' ''0.3.0'' ''project-id'' test_nullProtoSpan)))) =
       [''project_id'', ''g.co/agent'']
   \<and> droppedAttributesCount (the (Span_attributes
        (getReadableSpanTransformer ''0.10.0'' ''0.3.0'' ''project-id'' test_nullProtoSpan))) = 1"
  by code_simp

text \<open>
  Claim C3, amended. For every attribute mapping passed to \<open>transformAttributes\<close> (of a
  span, a link or an event; any of the three arguments given or left out) whose merged
  mapping has no own key \<open>__proto__\<close> of a supported type, the output map holds exactly
  the entries of the merged mapping whose value is a string, a number or a boolean,
  converted; \<open>droppedAttributesCount\<close> is the number of keys of the merged mapping minus
  the number of those entries, which is the number of entries of any other type. The
  merged mapping holds each key once, so its length counts its keys.
\<close>

theorem droppedAttributesCount_eq:
  assumes "proto_free (merged_attributes a b c)"
  shows "attributeMap (transformAttributes a b c) =
     map (\<lambda>(key, v). (key, valueToAttributeValue v))
       (filter (\<lambda>(key, v). supported v) (merged_attributes a b c))
   \<and> droppedAttributesCount (transformAttributes a b c) =
       int (length (Object_keys (merged_attributes a b c)))
         - int (length (filter (\<lambda>(key, v). supported v) (merged_attributes a b c)))
   \<and> droppedAttributesCount (transformAttributes a b c) =
       int (length (filter (\<lambda>(key, v). \<not> supported v) (merged_attributes a b c)))
   \<and> well_formed (merged_attributes a b c)
   \<and> Link_attributes (transformLink l) = Some (transformAttributes (link_attributes l) None None)
   \<and> map_option Annotation_attributes (TimeEvent_annotation (transformTimeEvent e)) =
       Some (Some (transformAttributes (event_attributes e) None None))"
proof -
  let ?m = "merged_attributes a b c"
  have "length ?m = length (filter (\<lambda>(key, v). supported v) ?m)
                      + length (filter (\<lambda>(key, v). \<not> supported v) ?m)"
    using sum_length_filter_compl [of "\<lambda>(key, v). supported v" ?m]
    by (simp add: case_prod_unfold)
  then show ?thesis
    by (simp add: transformAttributes_unfold transformAttributeValues_merged [OF assms]
        well_formed_merged_attributes Object_keys_def transformLink_def transformTimeEvent_def)
qed

text \<open>
  The link attributes of the test \<open>should transform links with attributes\<close>: one entry
  kept, one dropped.
\<close>

theorem droppedAttributesCount_eq_witness:
  "proto_free (merged_attributes
      (Some [(''testAttr'', JString ''value''), (''droppedAttr'', JObject [])]) None None)
   \<and> attributeMap (transformAttributes
        (Some [(''testAttr'', JString ''value''), (''droppedAttr'', JObject [])]) None None) =
       [(''testAttr'', valueToAttributeValue (JString ''value''))]
   \<and> droppedAttributesCount (transformAttributes
        (Some [(''testAttr'', JString ''value''), (''droppedAttr'', JObject [])]) None None) = 1"
proof -
  let ?a = "Some [(''testAttr'', JString ''value''), (''droppedAttr'', JObject [])]"
  have h: "proto_free (merged_attributes ?a None None)"
    by code_simp
  have m: "merged_attributes ?a None None =
             [(''testAttr'', JString ''value''), (''droppedAttr'', JObject [])]"
    by code_simp
  show ?thesis
    using h droppedAttributesCount_eq [OF h]
    unfolding m by (simp add: supported_def Object_keys_def)
qed

text \<open>
  Claim C7, as stated: a span whose attributes, links and events are empty gets an
  Attributes message with an empty map. It fails on the span of the test fixture, whose
  three collections are empty: its attribute map holds the two service attributes and the
  three resource labels, as the test \<open>should transform spans\<close> expects.
\<close>

theorem empty_span_attributes_counterexample:
  "attributes test_readableSpan = [] \<and> links test_readableSpan = []
   \<and> events test_readableSpan = []
   \<and> Span_attributes (getReadableSpanTransformer ''0.10.0'' ''0.3.0'' ''project-id'' test_readableSpan) =
       Some \<lparr>attributeMap =
               [(''project_id'',
                 \<lparr>intValue = None, boolValue = None,
                  stringValue = Some \<lparr>ts_value = ''project-id''\<rparr>\<rparr>),
                (''g.co/agent'',
                 \<lparr>intValue = None, boolValue = None,
                  stringValue = Some
                    \<lparr>ts_value = ''opentelemetry-js 0.10.0; google-cloud-trace-exporter 0.3.0''\<rparr>\<rparr>),
                (''service'',
                 \<lparr>intValue = None, boolValue = None, stringValue = Some \<lparr>ts_value = ''ui''\<rparr>\<rparr>),
                (''version'',
                 \<lparr>intValue = Some (Finite 1), boolValue = None, stringValue = None\<rparr>),
                (''cost'',
                 \<lparr>intValue = Some (Finite 112), boolValue = None, stringValue = None\<rparr>)],
             droppedAttributesCount = 0\<rparr>"
  by code_simp

text \<open>
  Claim C7, amended. For every span whose attributes, links and events are empty, the
  fields \<open>attributes\<close>, \<open>links\<close> and \<open>timeEvents\<close> of the output are present, never
  absent; \<open>links\<close> holds an empty link list and \<open>timeEvents\<close> an empty list of time
  events. The attributes message is the transform of the service attributes and the
  resource labels alone, and its map is not empty in general: when the resource has no
  labels it holds exactly \<open>project_id\<close> and \<open>g.co/agent\<close>. The attributes message of
  a link or of an event whose attributes are absent or empty is present with an empty map
  and a dropped count of zero.
\<close>

theorem empty_span_containers:
  assumes "attributes s = []" and "links s = []" and "events s = []"
  shows "Span_links (getReadableSpanTransformer cv v pid s) = Some \<lparr>link = []\<rparr>
         \<and> Span_timeEvents (getReadableSpanTransformer cv v pid s) = Some \<lparr>timeEvent = []\<rparr>
         \<and> Span_attributes (getReadableSpanTransformer cv v pid s) =
             Some (transformAttributes (Some [])
                     (Some (span_serviceAttributes cv v pid)) (Some (resource s)))
         \<and> (labels (resource s) = [] \<longrightarrow>
              Span_attributes (getReadableSpanTransformer cv v pid s) =
                Some \<lparr>attributeMap =
                        [(''project_id'', valueToAttributeValue (JString pid)),
                         (AGENT_LABEL_KEY,
                          valueToAttributeValue (JString (AGENT_LABEL_VALUE cv v)))],
                      droppedAttributesCount = 0\<rparr>)
         \<and> Link_attributes (transformLink \<lparr>link_context = ctx, link_attributes = None\<rparr>) =
             Some \<lparr>attributeMap = [], droppedAttributesCount = 0\<rparr>
         \<and> Link_attributes (transformLink \<lparr>link_context = ctx, link_attributes = Some []\<rparr>) =
             Some \<lparr>attributeMap = [], droppedAttributesCount = 0\<rparr>
         \<and> map_option Annotation_attributes (TimeEvent_annotation (transformTimeEvent
               \<lparr>event_time = t, event_name = n, event_attributes = None\<rparr>)) =
             Some (Some \<lparr>attributeMap = [], droppedAttributesCount = 0\<rparr>)
         \<and> map_option Annotation_attributes (TimeEvent_annotation (transformTimeEvent
               \<lparr>event_time = t, event_name = n, event_attributes = Some []\<rparr>)) =
             Some (Some \<lparr>attributeMap = [], droppedAttributesCount = 0\<rparr>)"
proof -
  have a: "Span_links (getReadableSpanTransformer cv v pid s) = Some \<lparr>link = []\<rparr>"
    using assms by (simp add: getReadableSpanTransformer_def Let_def transformLinks_def)
  have b: "Span_timeEvents (getReadableSpanTransformer cv v pid s) = Some \<lparr>timeEvent = []\<rparr>"
    using assms by (simp add: getReadableSpanTransformer_def Let_def transformTimeEvents_def)
  have c: "Span_attributes (getReadableSpanTransformer cv v pid s) =
             Some (transformAttributes (Some [])
                     (Some (span_serviceAttributes cv v pid)) (Some (resource s)))"
    using assms by (simp add: Span_attributes_transformer)
  have d: "transformAttributes (Some []) (Some (span_serviceAttributes cv v pid)) (Some r) =
             \<lparr>attributeMap =
                        [(''project_id'', valueToAttributeValue (JString pid)),
                         (AGENT_LABEL_KEY,
                          valueToAttributeValue (JString (AGENT_LABEL_VALUE cv v)))],
                      droppedAttributesCount = 0\<rparr>" if "labels r = []" for r
    using that
    by (simp add: transformAttributes_def Object_assign_def assign1_def Set_property_def
        empty_object_def Object_entries_def out_set_def
        span_serviceAttributes_def AGENT_LABEL_KEY_def
        transformAttributeValues_def Object_keys_def)
  show ?thesis
    using a b c d [of "resource s"]
    by (simp add: transformLink_def transformTimeEvent_def transformAttributes_empty)
qed

theorem empty_span_containers_witness:
  "attributes (test_readableSpan\<lparr>resource := Resource_empty\<rparr>) = []
   \<and> links (test_readableSpan\<lparr>resource := Resource_empty\<rparr>) = []
   \<and> events (test_readableSpan\<lparr>resource := Resource_empty\<rparr>) = []
   \<and> labels (resource (test_readableSpan\<lparr>resource := Resource_empty\<rparr>)) = []
   \<and> Span_links (getReadableSpanTransformer ''0.10.0'' ''0.3.0'' ''project-id''
        (test_readableSpan\<lparr>resource := Resource_empty\<rparr>)) = Some \<lparr>link = []\<rparr>
   \<and> Span_timeEvents (getReadableSpanTransformer ''0.10.0'' ''0.3.0'' ''project-id''
        (test_readableSpan\<lparr>resource := Resource_empty\<rparr>)) = Some \<lparr>timeEvent = []\<rparr>
   \<and> Span_attributes (getReadableSpanTransformer ''0.10.0'' ''0.3.0'' ''project-id''
        (test_readableSpan\<lparr>resource := Resource_empty\<rparr>)) =
       Some \<lparr>attributeMap =
               [(''project_id'', valueToAttributeValue (JString ''project-id'')),
                (AGENT_LABEL_KEY,
                 valueToAttributeValue (JString (AGENT_LABEL_VALUE ''0.10.0'' ''0.3.0'')))],
             droppedAttributesCount = 0\<rparr>"
proof -
  let ?s = "test_readableSpan\<lparr>resource := Resource_empty\<rparr>"
  have h1: "attributes ?s = []" and h2: "links ?s = []" and h3: "events ?s = []"
    and h4: "labels (resource ?s) = []"
    by (simp_all add: test_readableSpan_def Resource_empty_def)
  show ?thesis
    using h1 h2 h3 h4
      empty_span_containers [OF h1 h2 h3, of "''0.10.0''" "''0.3.0''" "''project-id''"
        test_spanContext]
    by blast
qed

text \<open>
  Claim C8. For every span, \<open>sameProcessAsParentSpan\<close> is the logical negation of the
  remoteness flag \<open>spanContext.isRemote\<close>; for a span that carries the flag, it is true
  if and only if the flag is false.
\<close>

theorem sameProcessAsParentSpan_negation:
  "Span_sameProcessAsParentSpan (getReadableSpanTransformer cv v pid s) =
     Some \<lparr>bool_value = \<not> truthy_bool (isRemote (spanContext s))\<rparr>
   \<and> (isRemote (spanContext s) = Some b \<longrightarrow>
        (Span_sameProcessAsParentSpan (getReadableSpanTransformer cv v pid s) =
           Some \<lparr>bool_value = True\<rparr>) = (b = False))"
  by (auto simp: getReadableSpanTransformer_def Let_def transformBool_def truthy_bool_def)

text \<open>The span of the fixture is remote, and its output says \<open>false\<close>.\<close>

theorem sameProcessAsParentSpan_negation_witness:
  "isRemote (spanContext test_readableSpan) = Some True
   \<and> Span_sameProcessAsParentSpan
        (getReadableSpanTransformer ''0.10.0'' ''0.3.0'' ''project-id'' test_readableSpan) =
       Some \<lparr>bool_value = False\<rparr>
   \<and> Span_sameProcessAsParentSpan
        (getReadableSpanTransformer ''0.10.0'' ''0.3.0'' ''project-id'' test_readableSpan) \<noteq>
       Some \<lparr>bool_value = True\<rparr>"
proof -
  have h: "isRemote (spanContext test_readableSpan) = Some True"
    by (simp add: test_readableSpan_def test_spanContext_def)
  show ?thesis
    using h sameProcessAsParentSpan_negation
      [of "''0.10.0''" "''0.3.0''" "''project-id''" test_readableSpan True]
    by (simp add: truthy_bool_def)
qed

text \<open>
  Claim C9, as stated: every attribute whose value is a number is stored as the integer
  nearest to it. It fails for \<open>NaN\<close>, whose \<open>typeof\<close> is \<open>number\<close>: the attribute
  is kept, and \<open>Math.round\<close> hands \<open>NaN\<close> on to \<open>intValue\<close>, which is no integer.
\<close>

theorem round_NaN_counterexample:
  "typeof (JNumber NaN) = ''number''
   \<and> map_of (attributeMap (the (Span_attributes
        (getReadableSpanTransformer ''0.10.0'' ''0.3.0'' ''project-id''
           (test_readableSpan\<lparr>attributes := [(''testNaN'', JNumber NaN)]\<rparr>)))))
        ''testNaN'' = Some \<lparr>intValue = Some NaN, boolValue = None, stringValue = None\<rparr>
   \<and> \<not> is_integer NaN"
  by code_simp

text \<open>
  Claim C9, amended. For every attribute whose value is a finite number \<open>x\<close>, in a
  merged mapping with no own key \<open>__proto__\<close> of a supported type, the output attribute
  map holds it as \<open>intValue\<close> \<open>\<lfloor>x + 1/2\<rfloor>\<close>, an integer nearest to \<open>x\<close>: no integer
  \<open>i\<close> is closer (rounding, not truncation; of two integers equally near, the larger).
\<close>

theorem finite_number_rounded:
  assumes "map_of (merged_attributes a b c) k = Some (JNumber (Finite x))"
    and "proto_free (merged_attributes a b c)"
  shows "map_of (attributeMap (transformAttributes a b c)) k =
           Some \<lparr>intValue = Some (Finite (of_int \<lfloor>x + 1 / 2\<rfloor>)),
                 boolValue = None, stringValue = None\<rparr>
         \<and> \<bar>of_int \<lfloor>x + 1 / 2\<rfloor> - x\<bar> \<le> \<bar>of_int i - x\<bar>"
  using assms
  by (simp add: attributeMap_lookup supported_def valueToAttributeValue_number nearest)

text \<open>The resource label \<open>cost = 112.12\<close> of the fixture comes out as \<open>intValue\<close> 112.\<close>

theorem finite_number_rounded_witness:
  "map_of (merged_attributes (Some (attributes test_readableSpan))
            (Some (span_serviceAttributes ''0.10.0'' ''0.3.0'' ''project-id''))
            (Some (resource test_readableSpan))) ''cost'' = Some (JNumber (Finite 112.12))
   \<and> proto_free (merged_attributes (Some (attributes test_readableSpan))
            (Some (span_serviceAttributes ''0.10.0'' ''0.3.0'' ''project-id''))
            (Some (resource test_readableSpan)))
   \<and> map_of (attributeMap (transformAttributes (Some (attributes test_readableSpan))
            (Some (span_serviceAttributes ''0.10.0'' ''0.3.0'' ''project-id''))
            (Some (resource test_readableSpan)))) ''cost'' =
       Some \<lparr>intValue = Some (Finite 112), boolValue = None, stringValue = None\<rparr>"
proof -
  have h: "map_of (merged_attributes (Some (attributes test_readableSpan))
            (Some (span_serviceAttributes ''0.10.0'' ''0.3.0'' ''project-id''))
            (Some (resource test_readableSpan))) ''cost'' = Some (JNumber (Finite 112.12))"
    by code_simp
  have p: "proto_free (merged_attributes (Some (attributes test_readableSpan))
            (Some (span_serviceAttributes ''0.10.0'' ''0.3.0'' ''project-id''))
            (Some (resource test_readableSpan)))"
    by code_simp
  have f: "\<lfloor>(112.12::rat) + 1 / 2\<rfloor> = 112"
    by (rule floor_unique) simp_all
  show ?thesis
    using h p finite_number_rounded [OF h p, of 0] unfolding f by simp
qed

text \<open>
  Claim C10. For every span whose \<open>spanContext\<close> carries no remoteness flag
  (\<open>isRemote\<close> is \<open>undefined\<close>), \<open>sameProcessAsParentSpan\<close> is true, and the whole
  output is the one of the same span with the flag set to \<open>false\<close>.
\<close>

theorem absent_isRemote_is_local:
  assumes "isRemote (spanContext s) = None"
  shows "Span_sameProcessAsParentSpan (getReadableSpanTransformer cv v pid s) =
           Some \<lparr>bool_value = True\<rparr>
         \<and> getReadableSpanTransformer cv v pid s =
             getReadableSpanTransformer cv v pid
               (s\<lparr>spanContext := (spanContext s)\<lparr>isRemote := Some False\<rparr>\<rparr>)"
  using assms
  by (simp add: getReadableSpanTransformer_def Let_def transformBool_def truthy_bool_def)

theorem absent_isRemote_is_local_witness:
  "isRemote (spanContext (test_readableSpan\<lparr>spanContext := test_spanContext\<lparr>isRemote := None\<rparr>\<rparr>)) = None
   \<and> Span_sameProcessAsParentSpan
        (getReadableSpanTransformer ''0.10.0'' ''0.3.0'' ''project-id''
           (test_readableSpan\<lparr>spanContext := test_spanContext\<lparr>isRemote := None\<rparr>\<rparr>)) =
       Some \<lparr>bool_value = True\<rparr>"
proof -
  let ?s = "test_readableSpan\<lparr>spanContext := test_spanContext\<lparr>isRemote := None\<rparr>\<rparr>"
  have h: "isRemote (spanContext ?s) = None"
    by simp
  show ?thesis
    using h absent_isRemote_is_local [OF h, of "''0.10.0''" "''0.3.0''" "''project-id''"]
    by blast
qed

section \<open>Properties of the exporter\<close>

text \<open>
  Claim C4. The outcome of each export call is classified three ways. In
  \<open>_batchWriteSpans\<close>: when the client has to be built and fails to build, the result is
  non-retryable failure; else when the batched write reports an error, it is retryable
  failure; else it is success. \<open>export\<close> hands the callback exactly one result: that
  one when a project id is there, and non-retryable failure when none is.
\<close>

theorem export_three_way:
  "fst (snd (batchWriteSpans this answers request)) =
     three_way (client_fails_to_build this answers) (batchWriteSpans_err answers \<noteq> None)
   \<and> callbacks (snd (export cv v this answers spans)) =
       [if has_projectId this
        then three_way (client_fails_to_build this answers) (batchWriteSpans_err answers \<noteq> None)
        else FAILED_NOT_RETRYABLE]"
  using export_with_projectId(1) [of this cv v answers spans]
    export_no_projectId(1) [of this cv v answers spans]
  by (simp add: batchWriteSpans_result)

text \<open>
  Claim C5. For every export call on an exporter whose project-id resolution failed or
  yielded no id, the effects of \<open>export\<close> are the one call of the result callback with
  non-retryable failure: no network call, no attempt to build a client, and the client
  field is left as it was.
\<close>

theorem export_without_projectId:
  assumes "\<not> has_projectId this"
  shows "snd (export cv v this answers spans) = [ResultCallback FAILED_NOT_RETRYABLE]
         \<and> callbacks (snd (export cv v this answers spans)) = [FAILED_NOT_RETRYABLE]
         \<and> network_calls (snd (export cv v this answers spans)) = []
         \<and> client_builds (snd (export cv v this answers spans)) = 0
         \<and> traceServiceClient (fst (export cv v this answers spans)) = traceServiceClient this"
  using export_no_projectId [OF assms, of cv v answers spans]
  by (simp add: client_builds_def)

text \<open>An exporter whose \<open>getProjectId\<close> rejected, asked to export the span of the fixture.\<close>

theorem export_without_projectId_witness:
  "\<not> has_projectId (fst (TraceExporter_new (Inl ''Unable to detect a Project Id'')))
   \<and> snd (export ''0.10.0'' ''0.3.0''
             (fst (TraceExporter_new (Inl ''Unable to detect a Project Id'')))
             answers_ok [test_readableSpan]) = [ResultCallback FAILED_NOT_RETRYABLE]
   \<and> network_calls (snd (export ''0.10.0'' ''0.3.0''
             (fst (TraceExporter_new (Inl ''Unable to detect a Project Id'')))
             answers_ok [test_readableSpan])) = []"
proof -
  have h: "\<not> has_projectId (fst (TraceExporter_new (Inl ''Unable to detect a Project Id'')))"
    by (simp add: TraceExporter_new_def has_projectId_def truthy_string_def)
  show ?thesis
    using h export_without_projectId
      [OF h, of "''0.10.0''" "''0.3.0''" answers_ok "[test_readableSpan]"]
    by simp
qed

text \<open>
  Claim C6. On one exporter instance: when the client has to be built and its
  construction fails, the callback gets non-retryable failure, the client field stays
  empty, and the next export call, whatever its answers, attempts the construction again
  (once). When the project id is missing, every export of any sequence of calls does
  nothing but report non-retryable failure, no call resolves the project id again, and
  the project id is still missing at the end.
\<close>

theorem client_retried_projectId_permanent:
  "(has_projectId this \<and> traceServiceClient this = None \<and> auth_getClient answers = Inl err \<longrightarrow>
      callbacks (snd (export cv v this answers spans)) = [FAILED_NOT_RETRYABLE]
      \<and> traceServiceClient (fst (export cv v this answers spans)) = None
      \<and> client_builds (snd (export cv v (fst (export cv v this answers spans)) answers' spans')) = 1)
   \<and> (\<not> has_projectId that \<longrightarrow>
        snd (exports cv v that calls) =
          replicate (length calls) [ResultCallback FAILED_NOT_RETRYABLE]
        \<and> projectId_resolutions (concat (snd (exports cv v that calls))) = 0
        \<and> \<not> has_projectId (fst (exports cv v that calls)))"
proof (intro conjI impI)
  assume a: "has_projectId this \<and> traceServiceClient this = None \<and> auth_getClient answers = Inl err"
  let ?this' = "fst (export cv v this answers spans)"
  from a have h: "has_projectId this" by simp
  from a show "callbacks (snd (export cv v this answers spans)) = [FAILED_NOT_RETRYABLE]"
    by (simp add: export_with_projectId(1) [OF h] three_way_def client_fails_to_build_def)
  from a show c: "traceServiceClient ?this' = None"
    by (simp add: export_with_projectId(3) [OF h])
  have h': "has_projectId ?this'"
    by (rule export_with_projectId(2) [OF h])
  show "client_builds (snd (export cv v ?this' answers' spans')) = 1"
    by (simp add: export_with_projectId(4) [OF h'] c)
next
  assume b: "\<not> has_projectId that"
  from exports_no_projectId [OF b, of cv v calls]
  show "snd (exports cv v that calls) =
          replicate (length calls) [ResultCallback FAILED_NOT_RETRYABLE]"
    and "\<not> has_projectId (fst (exports cv v that calls))"
    by simp_all
  then show "projectId_resolutions (concat (snd (exports cv v that calls))) = 0"
    by (induction calls) (simp_all add: projectId_resolutions_def)
qed

text \<open>
  An exporter with a project id whose first export cannot build the client and whose
  second export builds it; and an exporter without a project id, asked to export twice.
\<close>

theorem client_retried_projectId_permanent_witness:
  "has_projectId (fst (TraceExporter_new (Inr ''project-id'')))
   \<and> traceServiceClient (fst (TraceExporter_new (Inr ''project-id''))) = None
   \<and> auth_getClient answers_no_client = Inl ''Could not load the default credentials''
   \<and> traceServiceClient (fst (export ''0.10.0'' ''0.3.0''
        (fst (TraceExporter_new (Inr ''project-id''))) answers_no_client [test_readableSpan])) = None
   \<and> client_builds (snd (export ''0.10.0'' ''0.3.0''
        (fst (export ''0.10.0'' ''0.3.0''
           (fst (TraceExporter_new (Inr ''project-id''))) answers_no_client [test_readableSpan]))
        answers_ok [test_readableSpan])) = 1
   \<and> \<not> has_projectId (fst (TraceExporter_new (Inl ''Unable to detect a Project Id'')))
   \<and> snd (exports ''0.10.0'' ''0.3.0''
        (fst (TraceExporter_new (Inl ''Unable to detect a Project Id'')))
        [(answers_ok, [test_readableSpan]), (answers_ok, [test_collidingSpan])]) =
       [[ResultCallback FAILED_NOT_RETRYABLE], [ResultCallback FAILED_NOT_RETRYABLE]]"
proof -
  have h1: "has_projectId (fst (TraceExporter_new (Inr ''project-id'')))"
    and h2: "traceServiceClient (fst (TraceExporter_new (Inr ''project-id''))) = None"
    and h3: "auth_getClient answers_no_client = Inl ''Could not load the default credentials''"
    and h4: "\<not> has_projectId (fst (TraceExporter_new (Inl ''Unable to detect a Project Id'')))"
    by (simp_all add: TraceExporter_new_def has_projectId_def truthy_string_def
        answers_no_client_def)
  have r: "replicate (length [(answers_ok, [test_readableSpan]), (answers_ok, [test_collidingSpan])])
             [ResultCallback FAILED_NOT_RETRYABLE] =
           [[ResultCallback FAILED_NOT_RETRYABLE], [ResultCallback FAILED_NOT_RETRYABLE]]"
    by (simp add: numeral_2_eq_2)
  show ?thesis
    using h1 h2 h3 h4
      client_retried_projectId_permanent
        [of "fst (TraceExporter_new (Inr ''project-id''))" answers_no_client
            "''Could not load the default credentials''"
            "''0.10.0''" "''0.3.0''" "[test_readableSpan]" answers_ok "[test_readableSpan]"
            "fst (TraceExporter_new (Inl ''Unable to detect a Project Id''))"
            "[(answers_ok, [test_readableSpan]), (answers_ok, [test_collidingSpan])]"]
    unfolding r by simp
qed

end
